theory Spec2Isabelle
  imports Main
begin

section \<open>Python values and dictionaries\<close>

text \<open>
  The values that flow through \<^verbatim>\<open>tools/search_tweets.py\<close> are the ones JSON, YAML and
  argparse produce: \<^verbatim>\<open>None\<close>, booleans, integers, strings, lists and dictionaries with
  string keys. A Python \<^verbatim>\<open>str\<close> is modelled by the bytes of its UTF-8 encoding, so every
  character beyond ASCII is a run of bytes from 128 upwards. A lone surrogate, which a
  \<^verbatim>\<open>str\<close> can hold and UTF-8 proper refuses, is held as the three bytes the same scheme
  gives it (\<^verbatim>\<open>ED\<close>, then a byte from \<^verbatim>\<open>A0\<close> to \<^verbatim>\<open>BF\<close>, then one more), so that a string that
  cannot be written to a UTF-8 file has a term too. Floating-point numbers are left out
  of the model: no statement below speaks about a record that holds one.

  A \<^verbatim>\<open>dict\<close> keeps its keys in insertion order and holds each key once: it is an
  association list whose keys are distinct (\<open>wf_dict\<close>).
\<close>

datatype pyval =
    PNone
  | PBool bool
  | PInt int
  | PStr string
  | PList "pyval list"
  | PDict "(string \<times> pyval) list"

type_synonym pydict = "(string \<times> pyval) list"

definition wf_dict :: "pydict \<Rightarrow> bool" where
  "wf_dict d = distinct (map fst d)"

text \<open>\<^verbatim>\<open>d.keys()\<close>, in insertion order.\<close>

definition dict_keys :: "pydict \<Rightarrow> string list" where
  "dict_keys d = map fst d"

text \<open>\<^verbatim>\<open>d.get(k)\<close>; a missing key is \<open>None\<close> of the option type.\<close>

definition dict_get :: "pydict \<Rightarrow> string \<Rightarrow> pyval option" where
  "dict_get d k = map_of d k"

text \<open>
  \<^verbatim>\<open>d[k] = v\<close>: a key that is already there keeps its place and takes the new value, a new
  key goes to the end.
\<close>

fun dict_set :: "string \<Rightarrow> pyval \<Rightarrow> pydict \<Rightarrow> pydict" where
  "dict_set k v [] = [(k, v)]"
| "dict_set k v ((k', v') # d) =
     (if k' = k then (k, v) # d else (k', v') # dict_set k v d)"

text \<open>\<^verbatim>\<open>d1.update(d2)\<close> on a copy of \<open>d1\<close>: the items of \<open>d2\<close> are stored one by one.\<close>

definition dict_update :: "pydict \<Rightarrow> pydict \<Rightarrow> pydict" where
  "dict_update d1 d2 = fold (\<lambda>(k, v) d. dict_set k v d) d2 d1"

text \<open>Python's truth value of an object, as \<^verbatim>\<open>if x:\<close> tests it.\<close>

fun truthy :: "pyval \<Rightarrow> bool" where
  "truthy PNone = False"
| "truthy (PBool b) = b"
| "truthy (PInt i) = (i \<noteq> 0)"
| "truthy (PStr s) = (s \<noteq> [])"
| "truthy (PList xs) = (xs \<noteq> [])"
| "truthy (PDict d) = (d \<noteq> [])"

section \<open>The sensitive-field filter\<close>

text \<open>
  \<^verbatim>\<open>
  def _filter_sensitive_args(dict_):
      sens_args = ("password", "consumer_key", "consumer_secret", "bearer_token")
      return {k: v for k, v in dict_.items() if k not in sens_args}
  \<close>
\<close>

definition sens_args :: "string list" where
  "sens_args = [''password'', ''consumer_key'', ''consumer_secret'', ''bearer_token'']"

definition filter_sensitive_args :: "pydict \<Rightarrow> pydict" where
  "filter_sensitive_args d = filter (\<lambda>(k, v). k \<notin> set sens_args) d"

section \<open>Merging the three configuration sources\<close>

text \<open>
  \<^verbatim>\<open>
  dict_filter = lambda x: {k: v for k, v in x.items() if v is not None}

  config_dict = merge_dicts(dict_filter(configfile_dict),
                            dict_filter(creds_dict),
                            dict_filter(args_dict))
  \<close>
\<close>

definition dict_filter :: "pydict \<Rightarrow> pydict" where
  "dict_filter x = filter (\<lambda>(k, v). v \<noteq> PNone) x"

text \<open>
  Modelled from the spec: \<^verbatim>\<open>merge_dicts\<close> is imported from the \<^verbatim>\<open>searchtweets\<close> package,
  whose source is not part of the files at hand. The specification gives its contract:
  apply the file configuration first, then overlay the credentials, then overlay the
  command-line arguments, so that later overlays win on key collision; a collision
  replaces the whole value and nothing is merged recursively.
\<close>

definition merge_dicts :: "pydict \<Rightarrow> pydict \<Rightarrow> pydict \<Rightarrow> pydict" where
  "merge_dicts file_cfg creds_cfg cli_cfg =
     dict_update (dict_update file_cfg creds_cfg) cli_cfg"

definition merged_config :: "pydict \<Rightarrow> pydict \<Rightarrow> pydict \<Rightarrow> pydict" where
  "merged_config configfile_dict creds_dict args_dict =
     merge_dicts (dict_filter configfile_dict)
                 (dict_filter creds_dict)
                 (dict_filter args_dict)"

section \<open>The world the program acts on\<close>

text \<open>
  What the program prints, what it logs as an error, the files it writes and the result
  stream it reads are the state. Each function takes the world and returns the new one,
  together with the value it returns or the exception it raises.

  \<^item> \<open>PrintLine s\<close> is \<^verbatim>\<open>print(s)\<close>; \<open>PrintJson v\<close> is \<^verbatim>\<open>print(json.dumps(v))\<close>;
    \<open>PrintKeys K\<close> is \<^verbatim>\<open>print(K)\<close> for a set of key names (Python prints the members
    of a set in no particular order).
  \<^item> \<open>files\<close> are the files the script opens by name. A CSV file is the list of rows
    handed to the \<^verbatim>\<open>csv\<close> writer, each row the list of its cells; quoting and line ends
    are the \<^verbatim>\<open>csv\<close> module's business. A text file is its characters.
  \<^item> The stream handle is a generator: \<open>stream\<close> holds the records it has not yet
    yielded, in order, and a record that has been pulled is gone. \<open>stream_passes\<close>
    counts the \<^verbatim>\<open>for\<close> loops started on the handle.
  \<^item> \<open>construct_error\<close> is the exception, if any, with which the \<^verbatim>\<open>searchtweets\<close> package
    answers when it is asked to build the stream for this run.
  \<^item> \<open>stream_wrapper\<close> tells whether the handle is the file-writing wrapper, and then
    holds its file name prefix and its record cap; \<open>prefix_files\<close> are the contents of
    the files the wrapper has written, in the order it started them.
  The \<^verbatim>\<open>logger.debug\<close> calls are left out; \<^verbatim>\<open>logger.error\<close> goes to \<open>errlog\<close>.
\<close>

datatype out_event =
    PrintLine string
  | PrintJson pyval
  | PrintKeys "string set"

datatype file_content =
    CsvRows "pyval list list"
  | TextFile string

text \<open>
  The two \<^verbatim>\<open>ValueError\<close>s that can arise: a record with keys outside the CSV header, and
  an integer too long to be turned into text.
\<close>

datatype value_error =
    ExtraFields "string set"
  | IntTooLong

datatype exn =
    SystemExit int
  | KeyError string
  | ValueError value_error
  | UnicodeEncodeError
  | ExternalError string

datatype 'a result =
    Returned 'a
  | Raised exn

record world =
  stdout :: "out_event list"
  errlog :: "string list"
  files :: "string \<rightharpoonup> file_content"
  stream :: "pydict list"
  stream_passes :: nat
  construct_error :: "exn option"
  stream_wrapper :: "(pyval \<times> pyval) option"
  prefix_files :: "pydict list list"

definition print_event :: "out_event \<Rightarrow> world \<Rightarrow> world" where
  "print_event e w = w\<lparr>stdout := stdout w @ [e]\<rparr>"

section \<open>Checking the required keys\<close>

text \<open>
  \<^verbatim>\<open>
  REQUIRED_KEYS = {"pt_rule", "endpoint"}

  if len(dict_filter(config_dict).keys() & REQUIRED_KEYS) < len(REQUIRED_KEYS):
      print(REQUIRED_KEYS - dict_filter(config_dict).keys())
      logger.error("ERROR: not enough arguments for the program to work")
      sys.exit(1)
  \<close>
\<close>

definition REQUIRED_KEYS :: "string set" where
  "REQUIRED_KEYS = {''pt_rule'', ''endpoint''}"

definition check_required :: "pydict \<Rightarrow> world \<Rightarrow> unit result \<times> world" where
  "check_required config_dict w =
     (if card (set (dict_keys (dict_filter config_dict)) \<inter> REQUIRED_KEYS) < card REQUIRED_KEYS
      then
        (let w1 = print_event (PrintKeys (REQUIRED_KEYS - set (dict_keys (dict_filter config_dict)))) w;
             w2 = w1\<lparr>errlog := errlog w1 @ [''ERROR: not enough arguments for the program to work'']\<rparr>
         in (Raised (SystemExit 1), w2))
      else (Returned (), w))"

section \<open>Building and consuming the stream\<close>

text \<open>
  \<^verbatim>\<open>
  stream_params = gen_params_from_config(config_dict)
  rs = ResultStream(tweetify=False, **stream_params)

  if config_dict.get("filename_prefix") is not None:
      stream = write_result_stream(rs,
                                   filename_prefix=config_dict.get("filename_prefix"),
                                   results_per_file=config_dict.get("results_per_file"))
  else:
      stream = rs.stream()
  \<close>
  \<^verbatim>\<open>gen_params_from_config\<close>, \<^verbatim>\<open>ResultStream\<close> and \<^verbatim>\<open>write_result_stream\<close> belong to the
  \<^verbatim>\<open>searchtweets\<close> package. The first two either raise or give a handle; which of the
  two is the world's \<open>construct_error\<close>.
\<close>

definition construct_stream :: "pydict \<Rightarrow> world \<Rightarrow> unit result \<times> world" where
  "construct_stream config_dict w =
     (case construct_error w of
        Some e \<Rightarrow> (Raised e, w)
      | None \<Rightarrow>
          (let filename_prefix =
                 (case dict_get config_dict ''filename_prefix'' of None \<Rightarrow> PNone | Some v \<Rightarrow> v);
               results_per_file =
                 (case dict_get config_dict ''results_per_file'' of None \<Rightarrow> PNone | Some v \<Rightarrow> v)
           in if filename_prefix \<noteq> PNone
              then (Returned (), w\<lparr>stream_wrapper := Some (filename_prefix, results_per_file)\<rparr>)
              else (Returned (), w\<lparr>stream_wrapper := None\<rparr>)))"

text \<open>
  Modelled from the spec: \<^verbatim>\<open>write_result_stream\<close> is not among the files at hand. The
  specification says of the file-writing wrapper: if a filename prefix is configured, each
  record additionally triggers a write to rotating output files sized by a configured
  per-file record cap; this wrapper still yields every record onward. The package names
  its files itself; the model keeps their contents in \<open>prefix_files\<close>, apart from the
  files the script opens by name. A file of the wrapper may well lie at the path of an
  export file. Without a cap (or with a cap that is no positive integer) there is one file.
\<close>

definition wrapper_write :: "pyval \<Rightarrow> pydict \<Rightarrow> pydict list list \<Rightarrow> pydict list list" where
  "wrapper_write cap tweet fs =
     (if fs = [] then [[tweet]]
      else (case cap of
              PInt n \<Rightarrow>
                if 0 < n \<and> n \<le> int (length (last fs)) then fs @ [[tweet]]
                else butlast fs @ [last fs @ [tweet]]
            | _ \<Rightarrow> butlast fs @ [last fs @ [tweet]]))"

text \<open>What the handle does when it yields a record.\<close>

definition yield_record :: "pydict \<Rightarrow> world \<Rightarrow> world" where
  "yield_record tweet w =
     (case stream_wrapper w of
        None \<Rightarrow> w
      | Some (filename_prefix, results_per_file) \<Rightarrow>
          w\<lparr>prefix_files := wrapper_write results_per_file tweet (prefix_files w)\<rparr>)"

text \<open>
  \<^verbatim>\<open>
  if config_dict["print_stream"]:
      for tweet in stream:
          print(json.dumps(tweet))

  all_tweets = []

  if config_dict["print_stream"]:
      for tweet in stream:
          print(json.dumps(tweet))
          all_tweets.append(tweet)
  \<close>
  A \<^verbatim>\<open>for\<close> loop over the handle first asks it for its iterator (the generator itself),
  then pulls records until none is left.
\<close>

definition start_pass :: "world \<Rightarrow> world" where
  "start_pass w = w\<lparr>stream_passes := Suc (stream_passes w)\<rparr>"

function echo_loop :: "world \<Rightarrow> world" where
  "echo_loop w =
     (case stream w of
        [] \<Rightarrow> w
      | tweet # rest \<Rightarrow>
          echo_loop (print_event (PrintJson (PDict tweet))
                       (yield_record tweet (w\<lparr>stream := rest\<rparr>))))"
  by pat_completeness auto
termination
  by (relation "measure (\<lambda>w. length (stream w))")
     (auto simp: print_event_def yield_record_def split: option.splits)

function collect_loop :: "pydict list \<Rightarrow> world \<Rightarrow> pydict list \<times> world" where
  "collect_loop all_tweets w =
     (case stream w of
        [] \<Rightarrow> (all_tweets, w)
      | tweet # rest \<Rightarrow>
          collect_loop (all_tweets @ [tweet])
            (print_event (PrintJson (PDict tweet))
               (yield_record tweet (w\<lparr>stream := rest\<rparr>))))"
  by pat_completeness auto
termination
  by (relation "measure (\<lambda>(a, w). length (stream w))")
     (auto simp: print_event_def yield_record_def split: option.splits)

definition consume :: "pydict \<Rightarrow> world \<Rightarrow> pydict list result \<times> world" where
  "consume config_dict w =
     (case dict_get config_dict ''print_stream'' of
        None \<Rightarrow> (Raised (KeyError ''print_stream''), w)
      | Some print_stream \<Rightarrow>
          (let w1 = (if truthy print_stream then echo_loop (start_pass w) else w);
               all_tweets = [];
               (all_tweets, w2) =
                 (if truthy print_stream then collect_loop all_tweets (start_pass w1)
                  else (all_tweets, w1))
           in (Returned all_tweets, w2)))"

section \<open>Text of numbers and values\<close>

definition digit_char :: "nat \<Rightarrow> char" where
  "digit_char d = char_of (48 + d)"

text \<open>The decimal digits of a natural number, as \<^verbatim>\<open>str\<close> and \<^verbatim>\<open>repr\<close> write them.\<close>

fun show_nat :: "nat \<Rightarrow> string" where
  "show_nat n = (if n < 10 then [digit_char n] else show_nat (n div 10) @ [digit_char (n mod 10)])"

definition show_int :: "int \<Rightarrow> string" where
  "show_int i = (if i < 0 then CHR ''-'' # show_nat (nat (- i)) else show_nat (nat i))"

declare show_nat.simps [simp del]
declare echo_loop.simps [simp del]
declare collect_loop.simps [simp del]

definition hex_digit :: "nat \<Rightarrow> char" where
  "hex_digit d = (if d < 10 then char_of (48 + d) else char_of (87 + d))"

text \<open>
  \<^verbatim>\<open>f"{v}"\<close> puts \<^verbatim>\<open>str(v)\<close> into the string. For a string that is the string itself. For
  every other value it is what the interpreter's \<^verbatim>\<open>str\<close> gives, which the functions below
  take as the argument \<open>str_of\<close>.
\<close>

definition fstring :: "(pyval \<Rightarrow> string) \<Rightarrow> pyval \<Rightarrow> string" where
  "fstring str_of v = (case v of PStr s \<Rightarrow> s | _ \<Rightarrow> str_of v)"

section \<open>Writing CSV\<close>

text \<open>
  \<^verbatim>\<open>
  def save_to_csv(tweets, filename="tweets_output.csv"):
      if not tweets:
          print("No tweets to save.")
          return

      keys = tweets[0].keys()
      with open(filename, "w", newline='', encoding="utf-8") as csvfile:
          writer = csv.DictWriter(csvfile, fieldnames=keys)
          writer.writeheader()
          writer.writerows(tweets)
      print(f"Saved {len(tweets)} tweets to {filename}")
  \<close>
  The writer is built with the defaults of \<^verbatim>\<open>csv.DictWriter\<close>: \<^verbatim>\<open>restval=""\<close> and
  \<^verbatim>\<open>extrasaction="raise"\<close>. Its \<^verbatim>\<open>_dict_to_list\<close> turns a record into a row:
  \<^verbatim>\<open>
  wrong_fields = rowdict.keys() - self.fieldnames
  if wrong_fields:
      raise ValueError("dict contains fields not in fieldnames: " + ...)
  return (rowdict.get(key, self.restval) for key in self.fieldnames)
  \<close>
  and \<^verbatim>\<open>writerows\<close> hands \<^verbatim>\<open>map(self._dict_to_list, rowdicts)\<close> to the underlying writer,
  which takes and writes the rows one at a time. Leaving the \<^verbatim>\<open>with\<close> block closes the
  file, also when an exception passes through it.
\<close>

definition open_w :: "string \<Rightarrow> file_content \<Rightarrow> world \<Rightarrow> world" where
  "open_w filename empty_content w = w\<lparr>files := (files w)(filename \<mapsto> empty_content)\<rparr>"

definition dict_to_list :: "string list \<Rightarrow> pydict \<Rightarrow> pyval list result" where
  "dict_to_list fieldnames rowdict =
     (let wrong_fields = set (dict_keys rowdict) - set fieldnames
      in if wrong_fields \<noteq> {} then Raised (ValueError (ExtraFields wrong_fields))
         else Returned (map (\<lambda>key. case dict_get rowdict key of
                                      None \<Rightarrow> PStr [] | Some v \<Rightarrow> v) fieldnames))"

definition csv_writerow :: "string \<Rightarrow> pyval list \<Rightarrow> world \<Rightarrow> world" where
  "csv_writerow filename row w =
     w\<lparr>files := (files w)(filename \<mapsto>
          (case files w filename of
             Some (CsvRows rows) \<Rightarrow> CsvRows (rows @ [row])
           | _ \<Rightarrow> CsvRows [row]))\<rparr>"

fun writerows :: "string \<Rightarrow> string list \<Rightarrow> pydict list \<Rightarrow> world \<Rightarrow> unit result \<times> world" where
  "writerows filename fieldnames [] w = (Returned (), w)"
| "writerows filename fieldnames (rowdict # rowdicts) w =
     (case dict_to_list fieldnames rowdict of
        Raised e \<Rightarrow> (Raised e, w)
      | Returned row \<Rightarrow> writerows filename fieldnames rowdicts (csv_writerow filename row w))"

text \<open>
  \<^verbatim>\<open>writeheader\<close> writes the row of \<^verbatim>\<open>dict(zip(fieldnames, fieldnames))\<close>, which is the
  field names themselves.
\<close>

definition writeheader :: "string \<Rightarrow> string list \<Rightarrow> world \<Rightarrow> world" where
  "writeheader filename fieldnames w = csv_writerow filename (map PStr fieldnames) w"

definition save_to_csv :: "pydict list \<Rightarrow> string \<Rightarrow> world \<Rightarrow> unit result \<times> world" where
  "save_to_csv tweets filename w =
     (case tweets of
        [] \<Rightarrow> (Returned (), print_event (PrintLine ''No tweets to save.'') w)
      | first # _ \<Rightarrow>
          (let keys = dict_keys first;
               w1 = open_w filename (CsvRows []) w;
               w2 = writeheader filename keys w1
           in case writerows filename keys tweets w2 of
                (Raised e, w3) \<Rightarrow> (Raised e, w3)
              | (Returned _, w3) \<Rightarrow>
                  (Returned (),
                   print_event (PrintLine (''Saved '' @ show_nat (length tweets)
                                            @ '' tweets to '' @ filename)) w3)))"

section \<open>Writing JSON\<close>

text \<open>
  \<^verbatim>\<open>
  def save_to_json(tweets, filename="tweets_output.json"):
      if not tweets:
          print("No tweets to save.")
          return

      with open(filename, "w", encoding="utf-8") as jsonfile:
          json.dump(tweets, jsonfile, ensure_ascii=False, indent=2)
      print(f"Saved {len(tweets)} tweets to {filename}")
  \<close>
  With \<^verbatim>\<open>ensure_ascii=False\<close> the encoder escapes the double quote, the backslash and
  the control characters below 32 only (\<^verbatim>\<open>\b \f \n \r \t\<close> by letter, the others as
  \<^verbatim>\<open>\u00hh\<close>) and writes every other character as it is. With an indent the item
  separator is a comma followed by a newline and the indentation of the current level,
  the key separator is a colon and a space, and an empty list or dictionary is written
  \<^verbatim>\<open>[]\<close> or \<^verbatim>\<open>{}\<close>.

  \<^verbatim>\<open>json.dump\<close> writes the text piece by piece, each piece as the encoder yields it. Two
  things can stop it on the way. Turning an integer of more than 4300 digits into text
  raises \<^verbatim>\<open>ValueError\<close> (Python 3.11 and later, with the default limit). Writing a piece
  that holds a lone surrogate raises \<^verbatim>\<open>UnicodeEncodeError\<close>, since the file is opened with
  the encoding UTF-8. The \<^verbatim>\<open>with\<close> block then closes the file with the pieces written so
  far, and the line that reports the saving is not reached.
\<close>

definition int_max_str_digits :: nat where
  "int_max_str_digits = 4300"

definition int_too_long :: "int \<Rightarrow> bool" where
  "int_too_long i = (int_max_str_digits < length (show_nat (nat \<bar>i\<bar>)))"

text \<open>
  A lone surrogate in a string: the byte \<^verbatim>\<open>ED\<close> followed by a byte from \<^verbatim>\<open>A0\<close> upwards. In the
  UTF-8 encoding of a character the byte after \<^verbatim>\<open>ED\<close> is below \<^verbatim>\<open>A0\<close>.
\<close>

fun has_surrogate :: "string \<Rightarrow> bool" where
  "has_surrogate [] = False"
| "has_surrogate [a] = False"
| "has_surrogate (a # b # s) =
     ((a = CHR 0xED \<and> 160 \<le> (of_char b :: nat)) \<or> has_surrogate (b # s))"

definition json_escape_char :: "char \<Rightarrow> string" where
  "json_escape_char c =
     (if c = CHR 0x5C then [CHR 0x5C, CHR 0x5C]
      else if c = CHR 0x22 then [CHR 0x5C, CHR 0x22]
      else if c = CHR 0x08 then [CHR 0x5C, CHR ''b'']
      else if c = CHR 0x0C then [CHR 0x5C, CHR ''f'']
      else if c = CHR 0x0A then [CHR 0x5C, CHR ''n'']
      else if c = CHR 0x0D then [CHR 0x5C, CHR ''r'']
      else if c = CHR 0x09 then [CHR 0x5C, CHR ''t'']
      else if (of_char c :: nat) < 32
        then [CHR 0x5C, CHR ''u'', CHR ''0'', CHR ''0'',
              hex_digit (of_char c div 16), hex_digit (of_char c mod 16)]
      else [c])"

definition encode_basestring :: "string \<Rightarrow> string" where
  "encode_basestring s = CHR 0x22 # concat (map json_escape_char s) @ [CHR 0x22]"

definition newline_indent :: "nat \<Rightarrow> nat \<Rightarrow> string" where
  "newline_indent indent level = CHR 0x0A # replicate (indent * level) CHR '' ''"



text \<open>
  The pieces, as \<^verbatim>\<open>_make_iterencode\<close> yields them. A list yields the opening bracket and
  the first indentation together with its first item when that item is a string, a
  number, \<^verbatim>\<open>null\<close>, \<^verbatim>\<open>true\<close> or \<^verbatim>\<open>false\<close>, and on their own before a list or a dictionary;
  the separator goes the same way with every later item. A dictionary yields the brace,
  the indentation, each key, each key separator and each value as pieces of their own.
  A piece is a text or the exception raised in its place.
\<close>

datatype chunk =
    Chunk string
  | ChunkError exn

fun is_container :: "pyval \<Rightarrow> bool" where
  "is_container (PList lst) = True"
| "is_container (PDict dct) = True"
| "is_container v = False"

fun scalar_chunks :: "string \<Rightarrow> pyval \<Rightarrow> chunk list" where
  "scalar_chunks buf (PStr s) = [Chunk (buf @ encode_basestring s)]"
| "scalar_chunks buf PNone = [Chunk (buf @ ''null'')]"
| "scalar_chunks buf (PBool b) = [Chunk (buf @ (if b then ''true'' else ''false''))]"
| "scalar_chunks buf (PInt i) =
     (if int_too_long i then [ChunkError (ValueError IntTooLong)]
      else [Chunk (buf @ show_int i)])"
| "scalar_chunks buf v = []"

fun iterencode_chunks :: "nat \<Rightarrow> nat \<Rightarrow> pyval \<Rightarrow> chunk list"
  and list_chunks :: "nat \<Rightarrow> nat \<Rightarrow> string \<Rightarrow> pyval list \<Rightarrow> chunk list"
  and dict_chunks :: "nat \<Rightarrow> nat \<Rightarrow> bool \<Rightarrow> (string \<times> pyval) list \<Rightarrow> chunk list"
where
  "iterencode_chunks indent level PNone = scalar_chunks [] PNone"
| "iterencode_chunks indent level (PBool b) = scalar_chunks [] (PBool b)"
| "iterencode_chunks indent level (PInt i) = scalar_chunks [] (PInt i)"
| "iterencode_chunks indent level (PStr s) = scalar_chunks [] (PStr s)"
| "iterencode_chunks indent level (PList lst) =
     (if lst = [] then [Chunk ''[]'']
      else list_chunks indent (Suc level) (''['' @ newline_indent indent (Suc level)) lst
           @ [Chunk (newline_indent indent level), Chunk '']''])"
| "iterencode_chunks indent level (PDict dct) =
     (if dct = [] then [Chunk ''{}'']
      else [Chunk ''{'', Chunk (newline_indent indent (Suc level))]
           @ dict_chunks indent (Suc level) True dct
           @ [Chunk (newline_indent indent level), Chunk ''}''])"
| "list_chunks indent level buf [] = []"
| "list_chunks indent level buf (v # vs) =
     (if is_container v then Chunk buf # iterencode_chunks indent level v
      else scalar_chunks buf v)
     @ list_chunks indent level ('','' @ newline_indent indent level) vs"
| "dict_chunks indent level first [] = []"
| "dict_chunks indent level first ((k, v) # kvs) =
     (if first then [] else [Chunk ('','' @ newline_indent indent level)])
     @ [Chunk (encode_basestring k), Chunk '': '']
     @ (if is_container v then iterencode_chunks indent level v else scalar_chunks [] v)
     @ dict_chunks indent level False kvs"

text \<open>\<^verbatim>\<open>fp.write(chunk)\<close> for each piece, until one fails.\<close>

definition append_text :: "string \<Rightarrow> string \<Rightarrow> world \<Rightarrow> world" where
  "append_text filename s w =
     w\<lparr>files := (files w)(filename \<mapsto>
          TextFile ((case files w filename of Some (TextFile t) \<Rightarrow> t | _ \<Rightarrow> []) @ s))\<rparr>"

fun write_chunks :: "string \<Rightarrow> chunk list \<Rightarrow> world \<Rightarrow> unit result \<times> world" where
  "write_chunks filename [] w = (Returned (), w)"
| "write_chunks filename (ChunkError e # cs) w = (Raised e, w)"
| "write_chunks filename (Chunk s # cs) w =
     (if has_surrogate s then (Raised UnicodeEncodeError, w)
      else write_chunks filename cs (append_text filename s w))"

definition save_to_json :: "pydict list \<Rightarrow> string \<Rightarrow> world \<Rightarrow> unit result \<times> world" where
  "save_to_json tweets filename w =
     (case tweets of
        [] \<Rightarrow> (Returned (), print_event (PrintLine ''No tweets to save.'') w)
      | _ # _ \<Rightarrow>
          (let w1 = open_w filename (TextFile []) w
           in case write_chunks filename (iterencode_chunks 2 0 (PList (map PDict tweets))) w1 of
                (Raised e, w2) \<Rightarrow> (Raised e, w2)
              | (Returned _, w2) \<Rightarrow>
                  (Returned (),
                   print_event (PrintLine (''Saved '' @ show_nat (length tweets)
                                            @ '' tweets to '' @ filename)) w2)))"

section \<open>The export step and the whole run\<close>

text \<open>
  \<^verbatim>\<open>
  export_type = config_dict.get("export")
  output_base = config_dict.get("output_filename", "tweets_output")

  if export_type and all_tweets:
      if export_type in ("csv", "both"):
          save_to_csv(all_tweets, f"{output_base}.csv")
      if export_type in ("json", "both"):
          save_to_json(all_tweets, f"{output_base}.json")
  \<close>
\<close>

definition export_step ::
  "(pyval \<Rightarrow> string) \<Rightarrow> pydict \<Rightarrow> pydict list \<Rightarrow> world \<Rightarrow> unit result \<times> world" where
  "export_step str_of config_dict all_tweets w =
     (let export_type = (case dict_get config_dict ''export'' of None \<Rightarrow> PNone | Some v \<Rightarrow> v);
          output_base = (case dict_get config_dict ''output_filename'' of
                           None \<Rightarrow> PStr ''tweets_output'' | Some v \<Rightarrow> v)
      in if truthy export_type \<and> all_tweets \<noteq> [] then
           (case (if export_type = PStr ''csv'' \<or> export_type = PStr ''both''
                  then save_to_csv all_tweets (fstring str_of output_base @ ''.csv'') w
                  else (Returned (), w)) of
              (Raised e, w1) \<Rightarrow> (Raised e, w1)
            | (Returned _, w1) \<Rightarrow>
                (if export_type = PStr ''json'' \<or> export_type = PStr ''both''
                 then save_to_json all_tweets (fstring str_of output_base @ ''.json'') w1
                 else (Returned (), w1)))
         else (Returned (), w))"

text \<open>
  The run from the merged configuration on: the check of the required keys, the building
  of the stream handle, the two loops and the export step. The records the handle is
  going to yield are the \<open>stream\<close> of the world the run starts in.

  \<open>main\<close> starts where the three sources are at hand: the dictionary read from the
  configuration file (empty without one), the credentials, and the parsed command-line
  arguments after \<^verbatim>\<open>extra_headers\<close> has been replaced by \<^verbatim>\<open>extra_headers_dict\<close>.
\<close>

definition run_config :: "(pyval \<Rightarrow> string) \<Rightarrow> pydict \<Rightarrow> world \<Rightarrow> unit result \<times> world" where
  "run_config str_of config_dict w =
     (case check_required config_dict w of
        (Raised e, w1) \<Rightarrow> (Raised e, w1)
      | (Returned _, w1) \<Rightarrow>
          (case construct_stream config_dict w1 of
             (Raised e, w2) \<Rightarrow> (Raised e, w2)
           | (Returned _, w2) \<Rightarrow>
               (case consume config_dict w2 of
                  (Raised e, w3) \<Rightarrow> (Raised e, w3)
                | (Returned all_tweets, w3) \<Rightarrow> export_step str_of config_dict all_tweets w3)))"

definition main ::
  "(pyval \<Rightarrow> string) \<Rightarrow> pydict \<Rightarrow> pydict \<Rightarrow> pydict \<Rightarrow> world \<Rightarrow> unit result \<times> world" where
  "main str_of configfile_dict creds_dict args_dict w =
     run_config str_of (merged_config configfile_dict creds_dict args_dict) w"

text \<open>
  The exit status of the process: 0 when \<^verbatim>\<open>main\<close> returns, the argument of \<^verbatim>\<open>sys.exit\<close>
  when it is called, and 1 when another exception ends the program.
\<close>

definition exit_status :: "unit result \<Rightarrow> int" where
  "exit_status r = (case r of Returned _ \<Rightarrow> 0 | Raised (SystemExit n) \<Rightarrow> n | Raised _ \<Rightarrow> 1)"

section \<open>Reading JSON back\<close>






















section \<open>Facts about dictionaries\<close>

lemma map_of_dict_set: "map_of (dict_set k v d) = (map_of d)(k \<mapsto> v)"
  by (induction d) (auto simp: fun_eq_iff)

lemma keys_dict_set: "fst ` set (dict_set k v d) = insert k (fst ` set d)"
  by (simp add: dom_map_of_conv_image_fst[symmetric] map_of_dict_set)

lemma distinct_dict_set: "distinct (map fst d) \<Longrightarrow> distinct (map fst (dict_set k v d))"
  by (induction d) (auto simp: keys_dict_set)

lemma map_of_fold_dict_set:
  "map_of (fold (\<lambda>(k, v) d. dict_set k v d) d2 d1) = map_of d1 ++ map_of (rev d2)"
proof (induction d2 arbitrary: d1)
  case Nil
  show ?case by simp
next
  case (Cons p d2)
  obtain k v where p: "p = (k, v)" by (cases p)
  have "map_of (fold (\<lambda>(k, v) d. dict_set k v d) (p # d2) d1)
        = map_of (dict_set k v d1) ++ map_of (rev d2)"
    by (simp add: p Cons.IH)
  also have "\<dots> = map_of d1 ++ map_of (rev d2 @ [(k, v)])"
    by (simp add: map_of_dict_set fun_eq_iff map_add_def split: option.splits)
  finally show ?case by (simp add: p)
qed

lemma map_of_rev_distinct: "distinct (map fst d) \<Longrightarrow> map_of (rev d) = map_of d"
  by (rule map_of_inject_set[THEN iffD2]) (simp_all add: rev_map[symmetric])

lemma map_of_dict_update:
  "wf_dict d2 \<Longrightarrow> map_of (dict_update d1 d2) = map_of d1 ++ map_of d2"
  by (simp add: dict_update_def wf_dict_def map_of_fold_dict_set map_of_rev_distinct)

lemma keys_fold_dict_set:
  "fst ` set (fold (\<lambda>(k, v) d. dict_set k v d) d2 d1) = fst ` set d1 \<union> fst ` set d2"
proof -
  have "fst ` set (fold (\<lambda>(k, v) d. dict_set k v d) d2 d1)
        = dom (map_of d1 ++ map_of (rev d2))"
    by (simp only: dom_map_of_conv_image_fst[symmetric] map_of_fold_dict_set)
  also have "\<dots> = fst ` set d1 \<union> fst ` set (rev d2)"
    by (simp only: dom_map_add dom_map_of_conv_image_fst Un_commute)
  finally show ?thesis by simp
qed

lemma keys_dict_update:
  "set (dict_keys (dict_update d1 d2)) = set (dict_keys d1) \<union> set (dict_keys d2)"
  by (simp add: dict_update_def dict_keys_def keys_fold_dict_set)

lemma wf_dict_filter: "wf_dict d \<Longrightarrow> wf_dict (filter P d)"
  by (simp add: wf_dict_def distinct_map_filter)

lemma map_of_filter_value:
  "distinct (map fst d) \<Longrightarrow>
   map_of (filter (\<lambda>(k, v). P v) d) k =
     (case map_of d k of None \<Rightarrow> None | Some v \<Rightarrow> if P v then Some v else None)"
proof (induction d)
  case Nil
  show ?case by simp
next
  case (Cons p d)
  obtain k' v' where p: "p = (k', v')" by (cases p)
  from Cons.prems have k': "k' \<notin> fst ` set d" and dist: "distinct (map fst d)"
    by (simp_all add: p)
  from k' have none: "map_of d k' = None"
    by (simp add: map_of_eq_None_iff)
  show ?case
    using Cons.IH[OF dist] none by (auto simp: p split: option.splits)
qed

lemma dict_get_dict_filter:
  "wf_dict d \<Longrightarrow>
   dict_get (dict_filter d) k =
     (case dict_get d k of None \<Rightarrow> None | Some v \<Rightarrow> if v \<noteq> PNone then Some v else None)"
  unfolding dict_get_def dict_filter_def wf_dict_def
  by (rule map_of_filter_value)

lemma dict_get_merged_config:
  assumes "wf_dict creds_dict" "wf_dict args_dict"
  shows "dict_get (merged_config configfile_dict creds_dict args_dict) k =
           (map_of (dict_filter configfile_dict) ++ map_of (dict_filter creds_dict)
              ++ map_of (dict_filter args_dict)) k"
proof -
  have "wf_dict (dict_filter creds_dict)" "wf_dict (dict_filter args_dict)"
    using assms by (simp_all add: dict_filter_def wf_dict_filter)
  then show ?thesis
    by (simp add: dict_get_def merged_config_def merge_dicts_def map_of_dict_update)
qed

lemma dict_get_filter_sensitive:
  "dict_get (filter_sensitive_args d) k = (if k \<in> set sens_args then None else dict_get d k)"
  unfolding dict_get_def filter_sensitive_args_def
  by (induction d) auto

lemma dict_filter_id: "PNone \<notin> snd ` set d \<Longrightarrow> dict_filter d = d"
  unfolding dict_filter_def by (induction d) auto

section \<open>The sensitive-field filter: what it removes and what it keeps\<close>

text \<open>
  Claim C7. For every input mapping, the sensitive-field filter returns a copy that has
  none of the keys \<^verbatim>\<open>password\<close>, \<^verbatim>\<open>consumer_key\<close>, \<^verbatim>\<open>consumer_secret\<close>, \<^verbatim>\<open>bearer_token\<close>,
  and maps every other key to the value it had; the keys that stay keep their order.
\<close>

theorem filter_sensitive_args_removes_exactly_the_denylist:
  "(\<forall>k \<in> {''password'', ''consumer_key'', ''consumer_secret'', ''bearer_token''}.
      k \<notin> set (dict_keys (filter_sensitive_args d)))
   \<and> (\<forall>k. k \<notin> {''password'', ''consumer_key'', ''consumer_secret'', ''bearer_token''}
          \<longrightarrow> dict_get (filter_sensitive_args d) k = dict_get d k)
   \<and> dict_keys (filter_sensitive_args d)
       = filter (\<lambda>k. k \<notin> {''password'', ''consumer_key'', ''consumer_secret'', ''bearer_token''})
           (dict_keys d)"
proof -
  have s: "set sens_args = {''password'', ''consumer_key'', ''consumer_secret'', ''bearer_token''}"
    by (simp add: sens_args_def)
  have 1: "\<forall>k \<in> set sens_args. k \<notin> set (dict_keys (filter_sensitive_args d))"
    by (auto simp: dict_keys_def filter_sensitive_args_def)
  have 2: "\<forall>k. k \<notin> set sens_args \<longrightarrow> dict_get (filter_sensitive_args d) k = dict_get d k"
    by (simp add: dict_get_filter_sensitive)
  have 3: "dict_keys (filter_sensitive_args d) = filter (\<lambda>k. k \<notin> set sens_args) (dict_keys d)"
    unfolding dict_keys_def filter_sensitive_args_def
    by (induction d) auto
  from 1 2 3 show ?thesis unfolding s by blast
qed

theorem filter_sensitive_args_witness:
  "dict_get (filter_sensitive_args
      [(''password'', PStr ''hunter2''), (''pt_rule'', PStr ''cats''), (''bearer_token'', PStr ''AAAA'')])
      ''pt_rule'' = Some (PStr ''cats'')
   \<and> ''password'' \<notin> set (dict_keys (filter_sensitive_args
      [(''password'', PStr ''hunter2''), (''pt_rule'', PStr ''cats''), (''bearer_token'', PStr ''AAAA'')]))
   \<and> dict_keys (filter_sensitive_args
      [(''password'', PStr ''hunter2''), (''pt_rule'', PStr ''cats''), (''bearer_token'', PStr ''AAAA'')])
     = [''pt_rule'']"
  using filter_sensitive_args_removes_exactly_the_denylist
    [of "[(''password'', PStr ''hunter2''), (''pt_rule'', PStr ''cats''), (''bearer_token'', PStr ''AAAA'')]"]
  by (simp add: dict_get_def dict_keys_def)

section \<open>Precedence of the configuration sources\<close>

text \<open>
  Claim C5. A key that has a value other than \<^verbatim>\<open>None\<close> in all three sources (file
  configuration, credentials, command-line arguments) has, in the merged configuration,
  the value the command line gave it, whatever the other two values are.
\<close>

theorem cli_value_wins:
  assumes "wf_dict configfile_dict" and "wf_dict creds_dict" and "wf_dict args_dict"
    and "dict_get configfile_dict k = Some vf" and "vf \<noteq> PNone"
    and "dict_get creds_dict k = Some vc" and "vc \<noteq> PNone"
    and "dict_get args_dict k = Some va" and "va \<noteq> PNone"
  shows "dict_get (merged_config configfile_dict creds_dict args_dict) k = Some va"
proof -
  have "map_of (dict_filter args_dict) k = Some va"
    using assms(3,8,9) dict_get_dict_filter[of args_dict k] by (simp add: dict_get_def)
  then show ?thesis
    by (simp add: dict_get_merged_config[OF assms(2,3)])
qed

theorem cli_value_wins_witness:
  "dict_get (merged_config [(''max_results'', PInt 10)] [(''max_results'', PInt 20)]
                           [(''max_results'', PInt 30)]) ''max_results'' = Some (PInt 30)"
  using cli_value_wins[of "[(''max_results'', PInt 10)]" "[(''max_results'', PInt 20)]"
          "[(''max_results'', PInt 30)]" "''max_results''" "PInt 10" "PInt 20" "PInt 30"]
  by (simp add: wf_dict_def dict_get_def)

text \<open>
  Claim C6, as amended. A key whose value is \<^verbatim>\<open>None\<close> on the command line, that the
  credentials do not have or have as \<^verbatim>\<open>None\<close>, and whose value in the file configuration
  is not \<^verbatim>\<open>None\<close>, has the file's value in the merged configuration. Without the
  condition on the credentials the statement fails: credentials that hold the key
  override the file.
\<close>

theorem null_cli_value_falls_back_to_file:
  assumes "wf_dict configfile_dict" and "wf_dict creds_dict" and "wf_dict args_dict"
    and "dict_get args_dict k = Some PNone"
    and "dict_get creds_dict k = None \<or> dict_get creds_dict k = Some PNone"
    and "dict_get configfile_dict k = Some vf" and "vf \<noteq> PNone"
  shows "dict_get (merged_config configfile_dict creds_dict args_dict) k = Some vf"
proof -
  have a: "map_of (dict_filter args_dict) k = None"
    using assms(3,4) dict_get_dict_filter[of args_dict k] by (simp add: dict_get_def)
  have c: "map_of (dict_filter creds_dict) k = None"
    using assms(2,5) dict_get_dict_filter[of creds_dict k] by (auto simp: dict_get_def)
  have f: "map_of (dict_filter configfile_dict) k = Some vf"
    using assms(1,6,7) dict_get_dict_filter[of configfile_dict k] by (simp add: dict_get_def)
  show ?thesis
    using a c f by (simp add: dict_get_merged_config[OF assms(2,3)] map_add_def)
qed

theorem null_cli_value_falls_back_to_file_witness:
  "dict_get (merged_config [(''max_results'', PInt 10)] [(''endpoint'', PStr ''e'')]
                           [(''max_results'', PNone)]) ''max_results'' = Some (PInt 10)"
  using null_cli_value_falls_back_to_file[of "[(''max_results'', PInt 10)]"
          "[(''endpoint'', PStr ''e'')]" "[(''max_results'', PNone)]" "''max_results''" "PInt 10"]
  by (simp add: wf_dict_def dict_get_def)

text \<open>
  The counterexample to C6 as it was stated: the command line has \<^verbatim>\<open>account_type\<close> as
  \<^verbatim>\<open>None\<close>, the file has \<^verbatim>\<open>premium\<close>, the credentials have \<^verbatim>\<open>enterprise\<close>, and the merged
  configuration holds \<^verbatim>\<open>enterprise\<close>.
\<close>

theorem null_cli_value_counterexample:
  "wf_dict [(''account_type'', PStr ''premium'')]
   \<and> wf_dict [(''account_type'', PStr ''enterprise'')]
   \<and> wf_dict [(''account_type'', PNone)]
   \<and> dict_get [(''account_type'', PNone)] ''account_type'' = Some PNone
   \<and> dict_get [(''account_type'', PStr ''premium'')] ''account_type'' = Some (PStr ''premium'')
   \<and> dict_get (merged_config [(''account_type'', PStr ''premium'')]
                               [(''account_type'', PStr ''enterprise'')]
                               [(''account_type'', PNone)]) ''account_type''
       = Some (PStr ''enterprise'')
   \<and> PStr ''enterprise'' \<noteq> PStr ''premium''"
  by (simp add: wf_dict_def dict_get_def merged_config_def merge_dicts_def dict_filter_def
        dict_update_def)

text \<open>
  Claim C10. For three sources whose key sets are pairwise disjoint and whose values are
  all different from \<^verbatim>\<open>None\<close>, the keys of the merged configuration are the union of
  the three key sets, and every key has the value its source gave it.
\<close>

theorem disjoint_sources_merge_to_union:
  assumes wf: "wf_dict configfile_dict" "wf_dict creds_dict" "wf_dict args_dict"
    and nonnull: "PNone \<notin> snd ` set configfile_dict" "PNone \<notin> snd ` set creds_dict"
                 "PNone \<notin> snd ` set args_dict"
    and disj: "set (dict_keys configfile_dict) \<inter> set (dict_keys creds_dict) = {}"
              "set (dict_keys configfile_dict) \<inter> set (dict_keys args_dict) = {}"
              "set (dict_keys creds_dict) \<inter> set (dict_keys args_dict) = {}"
  shows "set (dict_keys (merged_config configfile_dict creds_dict args_dict))
           = set (dict_keys configfile_dict) \<union> set (dict_keys creds_dict)
             \<union> set (dict_keys args_dict)
         \<and> (\<forall>k v. (k, v) \<in> set configfile_dict \<union> set creds_dict \<union> set args_dict
               \<longrightarrow> dict_get (merged_config configfile_dict creds_dict args_dict) k = Some v)"
proof -
  have id: "dict_filter configfile_dict = configfile_dict" "dict_filter creds_dict = creds_dict"
    "dict_filter args_dict = args_dict"
    using nonnull by (simp_all add: dict_filter_id)
  have keys: "set (dict_keys (merged_config configfile_dict creds_dict args_dict))
           = set (dict_keys configfile_dict) \<union> set (dict_keys creds_dict)
             \<union> set (dict_keys args_dict)"
    by (simp add: merged_config_def merge_dicts_def id keys_dict_update)
  have get: "dict_get (merged_config configfile_dict creds_dict args_dict) k
           = (map_of configfile_dict ++ map_of creds_dict ++ map_of args_dict) k" for k
    using dict_get_merged_config[OF wf(2,3), of configfile_dict k] by (simp add: id)
  have vals: "dict_get (merged_config configfile_dict creds_dict args_dict) k = Some v"
    if kv: "(k, v) \<in> set configfile_dict \<union> set creds_dict \<union> set args_dict" for k v
  proof -
    consider (f) "(k, v) \<in> set configfile_dict" | (c) "(k, v) \<in> set creds_dict"
      | (a) "(k, v) \<in> set args_dict"
      using kv by blast
    then show ?thesis
    proof cases
      case f
      then have "map_of configfile_dict k = Some v"
        using wf(1) by (simp add: wf_dict_def)
      moreover have "k \<in> set (dict_keys configfile_dict)"
        using f by (force simp: dict_keys_def)
      then have "map_of creds_dict k = None" "map_of args_dict k = None"
        using disj(1,2) by (auto simp: dict_keys_def map_of_eq_None_iff)
      ultimately show ?thesis by (simp add: get map_add_def)
    next
      case c
      then have "map_of creds_dict k = Some v"
        using wf(2) by (simp add: wf_dict_def)
      moreover have "k \<in> set (dict_keys creds_dict)"
        using c by (force simp: dict_keys_def)
      then have "map_of args_dict k = None"
        using disj(3) by (auto simp: dict_keys_def map_of_eq_None_iff)
      ultimately show ?thesis by (simp add: get map_add_def)
    next
      case a
      then have "map_of args_dict k = Some v"
        using wf(3) by (simp add: wf_dict_def)
      then show ?thesis by (simp add: get map_add_def)
    qed
  qed
  from keys vals show ?thesis by blast
qed

theorem disjoint_sources_merge_to_union_witness:
  "set (dict_keys (merged_config [(''pt_rule'', PStr ''foo'')] [(''endpoint'', PStr ''bar'')]
                                 [(''print_stream'', PBool True)]))
     = {''pt_rule'', ''endpoint'', ''print_stream''}
   \<and> dict_get (merged_config [(''pt_rule'', PStr ''foo'')] [(''endpoint'', PStr ''bar'')]
                               [(''print_stream'', PBool True)]) ''endpoint'' = Some (PStr ''bar'')"
  using disjoint_sources_merge_to_union[of "[(''pt_rule'', PStr ''foo'')]"
          "[(''endpoint'', PStr ''bar'')]" "[(''print_stream'', PBool True)]"]
  by (simp add: wf_dict_def dict_keys_def insert_commute)

section \<open>The required keys\<close>

lemma card_Int_less_iff:
  assumes "finite R"
  shows "card (K \<inter> R) < card R \<longleftrightarrow> (\<exists>k\<in>R. k \<notin> K)"
proof
  assume "card (K \<inter> R) < card R"
  then have "K \<inter> R \<noteq> R" by auto
  then show "\<exists>k\<in>R. k \<notin> K" by blast
next
  assume "\<exists>k\<in>R. k \<notin> K"
  then have "K \<inter> R \<subset> R" by blast
  then show "card (K \<inter> R) < card R"
    using assms by (rule psubset_card_mono[rotated])
qed

lemma finite_REQUIRED_KEYS: "finite REQUIRED_KEYS"
  by (simp add: REQUIRED_KEYS_def)

text \<open>
  Claim C4. The check of the required keys fails if and only if at least one of
  \<^verbatim>\<open>pt_rule\<close> and \<^verbatim>\<open>endpoint\<close> is missing from the configuration once its \<^verbatim>\<open>None\<close> values
  are removed. When it fails, the set it prints is the required keys minus the keys of
  that configuration, and the process ends through \<^verbatim>\<open>sys.exit(1)\<close>, a status other than 0.
  When no required key is missing the check changes nothing and the run goes on.
\<close>

theorem validation_fails_iff_required_key_missing:
  "(fst (check_required config_dict w) \<noteq> Returned ())
     = (\<exists>k\<in>REQUIRED_KEYS. k \<notin> set (dict_keys (dict_filter config_dict)))
   \<and> ((\<exists>k\<in>REQUIRED_KEYS. k \<notin> set (dict_keys (dict_filter config_dict))) \<longrightarrow>
        fst (check_required config_dict w) = Raised (SystemExit 1)
        \<and> exit_status (fst (check_required config_dict w)) \<noteq> 0
        \<and> stdout (snd (check_required config_dict w))
            = stdout w @ [PrintKeys (REQUIRED_KEYS - set (dict_keys (dict_filter config_dict)))])
   \<and> ((\<forall>k\<in>REQUIRED_KEYS. k \<in> set (dict_keys (dict_filter config_dict))) \<longrightarrow>
        check_required config_dict w = (Returned (), w))"
  by (simp add: check_required_def card_Int_less_iff[OF finite_REQUIRED_KEYS] Let_def
        print_event_def exit_status_def)

theorem validation_fails_witness:
  "fst (check_required [(''pt_rule'', PStr ''cats''), (''endpoint'', PNone)]
         \<lparr>stdout = [], errlog = [], files = Map.empty, stream = [], stream_passes = 0,
      construct_error = None, stream_wrapper = None, prefix_files = []\<rparr>)
     = Raised (SystemExit 1)
   \<and> stdout (snd (check_required [(''pt_rule'', PStr ''cats''), (''endpoint'', PNone)]
         \<lparr>stdout = [], errlog = [], files = Map.empty, stream = [], stream_passes = 0,
      construct_error = None, stream_wrapper = None, prefix_files = []\<rparr>))
     = [PrintKeys {''endpoint''}]
   \<and> check_required [(''pt_rule'', PStr ''cats''), (''endpoint'', PStr ''https://e'')]
         \<lparr>stdout = [], errlog = [], files = Map.empty, stream = [], stream_passes = 0,
      construct_error = None, stream_wrapper = None, prefix_files = []\<rparr>
     = (Returned (), \<lparr>stdout = [], errlog = [], files = Map.empty, stream = [], stream_passes = 0,
      construct_error = None, stream_wrapper = None, prefix_files = []\<rparr>)"
  using validation_fails_iff_required_key_missing
          [of "[(''pt_rule'', PStr ''cats''), (''endpoint'', PNone)]"
              "\<lparr>stdout = [], errlog = [], files = Map.empty, stream = [], stream_passes = 0,
      construct_error = None, stream_wrapper = None, prefix_files = []\<rparr>"]
        validation_fails_iff_required_key_missing
          [of "[(''pt_rule'', PStr ''cats''), (''endpoint'', PStr ''https://e'')]"
              "\<lparr>stdout = [], errlog = [], files = Map.empty, stream = [], stream_passes = 0,
      construct_error = None, stream_wrapper = None, prefix_files = []\<rparr>"]
  by (simp add: REQUIRED_KEYS_def dict_filter_def dict_keys_def)

section \<open>The two loops over the stream\<close>

lemma echo_loop_drains: "stream (echo_loop w) = []"
proof (induction w rule: echo_loop.induct)
  case (1 w)
  show ?case
  proof (cases "stream w")
    case Nil
    then show ?thesis by (simp add: echo_loop.simps[of w])
  next
    case (Cons tweet rest)
    then show ?thesis
      using "1.IH"[OF Cons] by (simp add: echo_loop.simps[of w])
  qed
qed

lemma collect_loop_drained: "stream w = [] \<Longrightarrow> collect_loop all_tweets w = (all_tweets, w)"
  by (simp add: collect_loop.simps[of all_tweets w])

lemma consume_cases:
  "consume config_dict w = (Raised (KeyError ''print_stream''), w)
   \<or> (\<exists>w'. consume config_dict w = (Returned [], w'))"
proof (cases "dict_get config_dict ''print_stream''")
  case None
  then show ?thesis by (simp add: consume_def)
next
  case (Some print_stream)
  show ?thesis
  proof (cases "truthy print_stream")
    case True
    have "stream (start_pass (echo_loop (start_pass w))) = []"
      by (simp add: start_pass_def echo_loop_drains)
    then show ?thesis
      using Some True by (simp add: consume_def collect_loop_drained)
  next
    case False
    then show ?thesis using Some by (simp add: consume_def)
  qed
qed

lemma export_step_nothing: "export_step str_of config_dict [] w = (Returned (), w)"
  by (simp add: export_step_def Let_def)

text \<open>
  With a file name prefix the handle is the file-writing wrapper, and the records go to
  its files while the first loop drains it: the loops do write files of their own, only
  the export step does not.
\<close>

lemma wrapper_writes_while_first_loop_drains:
  "prefix_files (snd (run_config str_of
      [(''pt_rule'', PStr ''cats''), (''endpoint'', PStr ''https://e''),
       (''print_stream'', PBool True), (''filename_prefix'', PStr ''out''),
       (''export'', PStr ''json''), (''output_filename'', PStr ''out'')]
      \<lparr>stdout = [], errlog = [], files = Map.empty,
       stream = [[(''id'', PInt 1)], [(''id'', PInt 2)]], stream_passes = 0,
       construct_error = None, stream_wrapper = None, prefix_files = []\<rparr>))
   = [[[(''id'', PInt 1)], [(''id'', PInt 2)]]]"
  by (simp add: run_config_def check_required_def REQUIRED_KEYS_def dict_filter_def dict_keys_def
        construct_stream_def consume_def dict_get_def start_pass_def echo_loop.simps
        collect_loop.simps yield_record_def wrapper_write_def print_event_def export_step_def)

text \<open>
  Claim C2. The stream is a generator, so the list of accumulated records is empty when
  the export step is reached: with console streaming on, the first loop has drained the
  handle before the collecting loop starts; with console streaming off, no loop runs.
  Hence the export step, which does nothing for an empty list, never writes a CSV or a
  JSON file, whatever the export flag is and however many records the stream held: a
  whole run is the check of the required keys, the building of the handle and the loops.
\<close>

theorem accumulated_list_empty_so_nothing_exported:
  "fst (consume config_dict w) \<in> {Returned [], Raised (KeyError ''print_stream'')}
   \<and> export_step str_of config_dict [] w = (Returned (), w)
   \<and> run_config str_of config_dict w =
       (case check_required config_dict w of
          (Raised e, w1) \<Rightarrow> (Raised e, w1)
        | (Returned _, w1) \<Rightarrow>
            (case construct_stream config_dict w1 of
               (Raised e, w2) \<Rightarrow> (Raised e, w2)
             | (Returned _, w2) \<Rightarrow>
                 (case consume config_dict w2 of
                    (Raised e, w3) \<Rightarrow> (Raised e, w3)
                  | (Returned _, w3) \<Rightarrow> (Returned (), w3))))"
proof -
  have 1: "fst (consume config_dict w) \<in> {Returned [], Raised (KeyError ''print_stream'')}"
    using consume_cases[of config_dict w] by auto
  have 3: "(case consume config_dict w2 of
              (Raised e, w3) \<Rightarrow> (Raised e, w3)
            | (Returned all_tweets, w3) \<Rightarrow> export_step str_of config_dict all_tweets w3)
         = (case consume config_dict w2 of
              (Raised e, w3) \<Rightarrow> (Raised e, w3)
            | (Returned _, w3) \<Rightarrow> (Returned (), w3))" for w2
    using consume_cases[of config_dict w2] by (auto simp: export_step_nothing)
  have 4: "run_config str_of config_dict w =
       (case check_required config_dict w of
          (Raised e, w1) \<Rightarrow> (Raised e, w1)
        | (Returned _, w1) \<Rightarrow>
            (case construct_stream config_dict w1 of
               (Raised e, w2) \<Rightarrow> (Raised e, w2)
             | (Returned _, w2) \<Rightarrow>
                 (case consume config_dict w2 of
                    (Raised e, w3) \<Rightarrow> (Raised e, w3)
                  | (Returned _, w3) \<Rightarrow> (Returned (), w3))))"
  proof (cases "check_required config_dict w")
    case (Pair r1 w1)
    show ?thesis
    proof (cases r1)
      case (Raised e)
      then show ?thesis using Pair by (simp add: run_config_def)
    next
      case (Returned u)
      show ?thesis
      proof (cases "construct_stream config_dict w1")
        case (Pair r2 w2)
        show ?thesis
        proof (cases r2)
          case (Raised e)
          then show ?thesis
            using \<open>check_required config_dict w = (r1, w1)\<close> Returned Pair
            by (simp add: run_config_def)
        next
          case (Returned u2)
          then show ?thesis
            using \<open>check_required config_dict w = (r1, w1)\<close> \<open>r1 = Returned u\<close> Pair 3[of w2]
            by (simp add: run_config_def)
        qed
      qed
    qed
  qed
  show ?thesis
    using 1 4 by (simp add: export_step_nothing)
qed

text \<open>
  Claim C1 asks for a single pass over the stream in which every record is both echoed
  and appended. The code does not do that. At this input (console streaming on, JSON
  export requested, two records in the stream) the handle is iterated twice, both records
  are echoed by the first loop, and the second loop, the one that appends, gets none:
  the accumulated list is empty and no file is written.
\<close>

theorem stream_iterated_twice_and_nothing_collected:
  "consume [(''pt_rule'', PStr ''cats''), (''endpoint'', PStr ''https://e''),
            (''print_stream'', PBool True), (''export'', PStr ''json''),
            (''output_filename'', PStr ''tweets_output'')]
     \<lparr>stdout = [], errlog = [], files = Map.empty,
      stream = [[(''id'', PInt 1)], [(''id'', PInt 2)]], stream_passes = 0,
      construct_error = None, stream_wrapper = None, prefix_files = []\<rparr>
   = (Returned [],
      \<lparr>stdout = [PrintJson (PDict [(''id'', PInt 1)]), PrintJson (PDict [(''id'', PInt 2)])],
       errlog = [], files = Map.empty, stream = [], stream_passes = 2,
       construct_error = None, stream_wrapper = None, prefix_files = []\<rparr>)
   \<and> run_config str_of [(''pt_rule'', PStr ''cats''), (''endpoint'', PStr ''https://e''),
            (''print_stream'', PBool True), (''export'', PStr ''json''),
            (''output_filename'', PStr ''tweets_output'')]
     \<lparr>stdout = [], errlog = [], files = Map.empty,
      stream = [[(''id'', PInt 1)], [(''id'', PInt 2)]], stream_passes = 0,
      construct_error = None, stream_wrapper = None, prefix_files = []\<rparr>
   = (Returned (),
      \<lparr>stdout = [PrintJson (PDict [(''id'', PInt 1)]), PrintJson (PDict [(''id'', PInt 2)])],
       errlog = [], files = Map.empty, stream = [], stream_passes = 2,
       construct_error = None, stream_wrapper = None, prefix_files = []\<rparr>)"
  by (simp add: run_config_def check_required_def REQUIRED_KEYS_def dict_filter_def dict_keys_def
        construct_stream_def consume_def dict_get_def start_pass_def echo_loop.simps
        collect_loop.simps yield_record_def print_event_def export_step_def)

section \<open>The JSON text reads back\<close>


















































section \<open>Writing the JSON file piece by piece\<close>

lemma has_surrogate_Cons: "has_surrogate s \<Longrightarrow> has_surrogate (c # s)"
  by (cases s) auto












lemma write_chunk_ascii_text:
  "\<not> has_surrogate s \<Longrightarrow>
   write_chunks f (Chunk s # cs) w = write_chunks f cs (append_text f s w)"
  by simp





section \<open>The export functions\<close>

text \<open>
  Claim C3 says that exporting the records \<^verbatim>\<open>[{"a":1},{"a":2,"b":3}]\<close> as CSV with base name
  \<^verbatim>\<open>x\<close> gives \<^verbatim>\<open>x.csv\<close> with the header \<^verbatim>\<open>a\<close> and two data rows. The header is as the claim
  says, taken from the first record. The two rows are not what the code does: for the key
  \<^verbatim>\<open>b\<close> of the second record the writer raises \<^verbatim>\<open>ValueError\<close>, so the file is left with
  the header and the row of the first record, and the export ends with that exception.
\<close>

theorem csv_export_stops_at_extra_key:
  "save_to_csv [[(''a'', PInt 1)], [(''a'', PInt 2), (''b'', PInt 3)]] ''x.csv'' w
     = (Raised (ValueError (ExtraFields {''b''})),
        w\<lparr>files := (files w)(''x.csv'' \<mapsto> CsvRows [[PStr ''a''], [PInt 1]])\<rparr>)
   \<and> export_step str_of [(''export'', PStr ''csv''), (''output_filename'', PStr ''x'')]
        [[(''a'', PInt 1)], [(''a'', PInt 2), (''b'', PInt 3)]] w
     = (Raised (ValueError (ExtraFields {''b''})),
        w\<lparr>files := (files w)(''x.csv'' \<mapsto> CsvRows [[PStr ''a''], [PInt 1]])\<rparr>)"
  by (simp add: export_step_def dict_get_def fstring_def save_to_csv_def dict_keys_def open_w_def
        writeheader_def csv_writerow_def dict_to_list_def)

text \<open>
  Claim C8, as amended. Exporting an empty list of records writes no file, whatever format
  is asked for, and reports nothing: the export step runs only for a list that is not
  empty, so \<^verbatim>\<open>save_to_csv\<close> and \<^verbatim>\<open>save_to_json\<close> are not called. Called with an empty list,
  each of the two would print \<^verbatim>\<open>No tweets to save.\<close> and write nothing.
\<close>

theorem empty_export_writes_no_file:
  "export_step str_of config_dict [] w = (Returned (), w)
   \<and> save_to_csv [] csv_name w
       = (Returned (), w\<lparr>stdout := stdout w @ [PrintLine ''No tweets to save.'']\<rparr>)
   \<and> save_to_json [] json_name w
       = (Returned (), w\<lparr>stdout := stdout w @ [PrintLine ''No tweets to save.'']\<rparr>)"
  by (simp add: export_step_nothing save_to_csv_def save_to_json_def print_event_def)

text \<open>
  The counterexample to C8 as it was stated: the export of an empty list in CSV format,
  in JSON format and in both prints nothing, so no message is reported.
\<close>

theorem empty_export_message_counterexample:
  "stdout (snd (export_step (\<lambda>v. []) [(''export'', PStr ''csv''), (''output_filename'', PStr ''x'')] []
      \<lparr>stdout = [], errlog = [], files = Map.empty, stream = [], stream_passes = 0,
       construct_error = None, stream_wrapper = None, prefix_files = []\<rparr>)) = []
   \<and> stdout (snd (export_step (\<lambda>v. []) [(''export'', PStr ''json''), (''output_filename'', PStr ''x'')] []
      \<lparr>stdout = [], errlog = [], files = Map.empty, stream = [], stream_passes = 0,
       construct_error = None, stream_wrapper = None, prefix_files = []\<rparr>)) = []
   \<and> stdout (snd (export_step (\<lambda>v. []) [(''export'', PStr ''both''), (''output_filename'', PStr ''x'')] []
      \<lparr>stdout = [], errlog = [], files = Map.empty, stream = [], stream_passes = 0,
       construct_error = None, stream_wrapper = None, prefix_files = []\<rparr>)) = []"
  by (simp add: export_step_def dict_get_def)





end
